theory Spec2Isabelle
  imports Main "HOL-Library.Monad_Syntax" "HOL-Library.Sublist"
begin

section \<open>JavaScript values\<close>

text \<open>
  The schema and the first-page record are parsed JSON that the code reads through
  \<^verbatim>\<open>Record<string, unknown>\<close> casts, so they are modelled as untyped JavaScript values.
  An object is the list of its own properties in enumeration order (what
  \<^verbatim>\<open>Object.entries\<close> returns: index-like keys first, in ascending order, then the other
  keys as inserted); a JavaScript object never holds a key twice. The code inserts keys
  in the order in which it enumerated them, so a copy enumerates like its source.
  A number is held as the decimal text \<^verbatim>\<open>String(n)\<close> gives it (\<open>''200''\<close>, \<open>''8.1''\<close>,
  \<open>''0''\<close>): the code only tests numbers for truthiness and prints them.
  \<open>JUndefined\<close> is what reading a missing property yields.
\<close>

datatype jsval =
    JUndefined
  | JNull
  | JBool bool
  | JNum string
  | JStr string
  | JArr "jsval list"
  | JObj "(string \<times> jsval) list"

type_synonym props = "(string \<times> jsval) list"

text \<open>Truthiness, as \<^verbatim>\<open>||\<close>, \<^verbatim>\<open>&&\<close> and \<^verbatim>\<open>if\<close> test it.\<close>

fun truthy :: "jsval \<Rightarrow> bool" where
  "truthy JUndefined = False"
| "truthy JNull = False"
| "truthy (JBool b) = b"
| "truthy (JNum r) = (r \<noteq> ''0'' \<and> r \<noteq> ''NaN'')"
| "truthy (JStr s) = (s \<noteq> [])"
| "truthy (JArr xs) = True"
| "truthy (JObj kvs) = True"

fun nullish :: "jsval \<Rightarrow> bool" where
  "nullish JUndefined = True"
| "nullish JNull = True"
| "nullish v = False"

text \<open>
  Reading a property \<^verbatim>\<open>v.k\<close>. The result \<open>None\<close> stands for the \<^verbatim>\<open>TypeError\<close> that
  JavaScript throws when \<open>v\<close> is \<^verbatim>\<open>null\<close> or \<^verbatim>\<open>undefined\<close>. The keys the code reads
  (\<^verbatim>\<open>properties\<close>, \<^verbatim>\<open>type\<close>, \<^verbatim>\<open>items\<close>) are no array index and not \<^verbatim>\<open>length\<close>, so a
  string, an array, a number and a boolean have none of them.
\<close>

fun get :: "jsval \<Rightarrow> string \<Rightarrow> jsval" where
  "get (JObj kvs) k = (case map_of kvs k of None \<Rightarrow> JUndefined | Some v \<Rightarrow> v)"
| "get v k = JUndefined"

definition member :: "jsval \<Rightarrow> string \<Rightarrow> jsval option" where
  "member v k = (if nullish v then None else Some (get v k))"

text \<open>Decimal text of an array index.\<close>

definition digit :: "nat \<Rightarrow> char" where
  "digit d = ''0123456789'' ! d"

function toStringNat :: "nat \<Rightarrow> string" where
  "toStringNat n = (if n < 10 then [digit n] else toStringNat (n div 10) @ [digit (n mod 10)])"
  by pat_completeness auto
termination
  by (relation "measure id") auto

declare toStringNat.simps [simp del]

text \<open>The own enumerable properties of an array or of a string: its indices.\<close>

definition indexed :: "jsval list \<Rightarrow> props" where
  "indexed xs = zip (map toStringNat [0..<length xs]) xs"

text \<open>\<^verbatim>\<open>{ ...v }\<close>: spreading \<^verbatim>\<open>null\<close>, \<^verbatim>\<open>undefined\<close>, a number or a boolean gives \<^verbatim>\<open>{}\<close>.\<close>

fun spread :: "jsval \<Rightarrow> props" where
  "spread (JObj kvs) = kvs"
| "spread (JArr xs) = indexed xs"
| "spread (JStr s) = indexed (map (\<lambda>c. JStr [c]) s)"
| "spread v = []"

text \<open>\<^verbatim>\<open>Object.entries(v)\<close>: throws on \<^verbatim>\<open>null\<close> and \<^verbatim>\<open>undefined\<close>.\<close>

definition Object_entries :: "jsval \<Rightarrow> props option" where
  "Object_entries v = (if nullish v then None else Some (spread v))"

text \<open>
  \<^verbatim>\<open>o[k] = v\<close> on an ordinary object. For an ordinary property name an existing key keeps
  its place and a new key goes last (\<open>store\<close>). The name \<^verbatim>\<open>__proto__\<close> is different:
  the assignment goes to the accessor that \<^verbatim>\<open>Object.prototype\<close> has under that name,
  which changes the prototype (or does nothing) and leaves the own properties alone.
\<close>

fun store :: "string \<Rightarrow> jsval \<Rightarrow> props \<Rightarrow> props" where
  "store k v [] = [(k, v)]"
| "store k v ((k', v') # kvs) = (if k' = k then (k, v) # kvs else (k', v') # store k v kvs)"

definition assign :: "string \<Rightarrow> jsval \<Rightarrow> props \<Rightarrow> props" where
  "assign k v kvs = (if k = ''__proto__'' then kvs else store k v kvs)"

text \<open>\<^verbatim>\<open>delete o.k\<close>.\<close>

definition deleteKey :: "string \<Rightarrow> props \<Rightarrow> props" where
  "deleteKey k kvs = filter (\<lambda>kv. fst kv \<noteq> k) kvs"

section \<open>schemaLoader.ts: buildFirstPageJsonSchema\<close>

record SchemaDefinition =
  name :: string
  firstPageSchema :: jsval
  innerPagesSchema :: jsval
  firstPagePrompt :: string

text \<open>
  The inner loop of lines 86--91 and 108--113: every nested property is spread into a
  fresh object, loses \<^verbatim>\<open>format\<close>, and its key is pushed on the nested \<^verbatim>\<open>required\<close>.
\<close>

fun nestedLoop :: "props \<Rightarrow> props \<times> string list \<Rightarrow> props \<times> string list" where
  "nestedLoop [] st = st"
| "nestedLoop ((nestedKey, nestedValue) # rest) (nestedProps, nestedRequired) =
     nestedLoop rest
       (assign nestedKey (JObj (deleteKey ''format'' (spread nestedValue))) nestedProps,
        nestedRequired @ [nestedKey])"

text \<open>The strict object literal of lines 94--99 and 114--119.\<close>

definition strictObject :: "props \<Rightarrow> jsval" where
  "strictObject entries =
     (case nestedLoop entries ([], []) of (nestedProps, nestedRequired) \<Rightarrow>
        JObj [(''type'', JStr ''object''),
              (''properties'', JObj nestedProps),
              (''required'', JArr (map JStr nestedRequired)),
              (''additionalProperties'', JBool False)])"

text \<open>
  The body of the outer loop, lines 78--124, for one property value. The reads of
  \<^verbatim>\<open>prop.items\<close> and \<^verbatim>\<open>prop.properties\<close> are made up front: they can only throw when
  \<^verbatim>\<open>prop.type\<close> has thrown already, and reading has no effect.
\<close>

definition normalizeProperty :: "jsval \<Rightarrow> jsval option" where
  "normalizeProperty prop = do {
     ty \<leftarrow> member prop ''type'';
     items \<leftarrow> member prop ''items'';
     properties \<leftarrow> member prop ''properties'';
     if ty = JStr ''array'' \<and> truthy items then do {
       ity \<leftarrow> member items ''type'';
       iprops \<leftarrow> member items ''properties'';
       if ity = JStr ''object'' \<and> truthy iprops then do {
         entries \<leftarrow> Object_entries iprops;
         Some (JObj [(''type'', JStr ''array''), (''items'', strictObject entries)])
       } else Some (JObj (spread prop))
     } else if ty = JStr ''object'' \<and> truthy properties then do {
       entries \<leftarrow> Object_entries properties;
       Some (strictObject entries)
     } else Some (JObj (deleteKey ''format'' (spread prop)))
   }"

fun propertiesLoop :: "props \<Rightarrow> props \<times> string list \<Rightarrow> (props \<times> string list) option" where
  "propertiesLoop [] st = Some st"
| "propertiesLoop ((key, val) # rest) (strictProperties, required) = do {
     p \<leftarrow> normalizeProperty val;
     propertiesLoop rest (assign key p strictProperties, required @ [key])
   }"

definition strictSchema :: "props \<Rightarrow> string list \<Rightarrow> jsval" where
  "strictSchema strictProperties required =
     JObj [(''type'', JStr ''object''),
           (''properties'', JObj strictProperties),
           (''required'', JArr (map JStr required)),
           (''additionalProperties'', JBool False)]"

definition response_format :: "jsval \<Rightarrow> jsval" where
  "response_format s =
     JObj [(''type'', JStr ''json_schema''),
           (''json_schema'',
              JObj [(''name'', JStr ''first_page_response''),
                    (''strict'', JBool True),
                    (''schema'', s)])]"

definition buildFirstPageJsonSchema :: "SchemaDefinition \<Rightarrow> jsval option" where
  "buildFirstPageJsonSchema schema = do {
     p \<leftarrow> member (firstPageSchema schema) ''properties'';
     entries \<leftarrow> Object_entries (if truthy p then p else JObj []);
     (strictProperties, required) \<leftarrow> propertiesLoop entries ([], []);
     Some (response_format (strictSchema strictProperties required))
   }"

section \<open>schemaLoader.ts: generateFirstPagePrompt\<close>

text \<open>\<^verbatim>\<open>s.includes(sub)\<close>: a search for \<open>sub\<close> from every position of \<open>s\<close>.\<close>

fun includes' :: "string \<Rightarrow> string \<Rightarrow> bool" where
  "includes' [] sub = (sub = [])"
| "includes' (c # cs) sub = (prefix sub (c # cs) \<or> includes' cs sub)"

text \<open>\<^verbatim>\<open>xs.join(sep)\<close> on an array of strings.\<close>

fun join :: "string \<Rightarrow> string list \<Rightarrow> string" where
  "join sep [] = []"
| "join sep [x] = x"
| "join sep (x # y # ys) = x @ sep @ join sep (y # ys)"

definition nl :: string where
  "nl = [CHR 0x0A]"

text \<open>The template literal of lines 54--64.\<close>

definition promptTemplate :: "string \<Rightarrow> string \<Rightarrow> string" where
  "promptTemplate reportType fieldsList =
     ''You are analyzing the first page of a '' @ reportType @
     '' report. Extract all information from this image.'' @ nl @ nl @
     ''Extract the following fields:'' @ nl @
     fieldsList @ nl @ nl @
     ''Instructions:'' @ nl @
     ''- Extract all text exactly as shown'' @ nl @
     ''- For dates, format as YYYY-MM-DD'' @ nl @
     ''- For numbers, extract as numeric values'' @ nl @
     ''- For arrays (like authors, bulletPoints), extract all items'' @ nl @
     ''- If a field is not visible, use an appropriate default value''"

definition generateFirstPagePrompt :: "jsval \<Rightarrow> string \<Rightarrow> string option" where
  "generateFirstPagePrompt schema schemaName = do {
     p \<leftarrow> member schema ''properties'';
     entries \<leftarrow> Object_entries (if truthy p then p else JObj []);
     let fieldsList = join nl (map (\<lambda>key. ''- '' @ key) (map fst entries));
         reportType = (if includes' schemaName ''sector'' then ''sector'' else ''stock research'')
     in Some (promptTemplate reportType fieldsList)
   }"

section \<open>index.ts: generateFirstPageMarkdown\<close>

text \<open>
  \<^verbatim>\<open>String(v)\<close>, which a template literal applies too. An array prints its elements
  joined by commas, \<^verbatim>\<open>null\<close> and \<^verbatim>\<open>undefined\<close> elements as the empty string; an object
  of parsed JSON prints as \<^verbatim>\<open>[object Object]\<close> (it is taken to have no key named
  \<^verbatim>\<open>toString\<close>, which would hide the inherited method).
\<close>

fun js_String :: "jsval \<Rightarrow> string" where
  "js_String JUndefined = ''undefined''"
| "js_String JNull = ''null''"
| "js_String (JBool b) = (if b then ''true'' else ''false'')"
| "js_String (JNum r) = r"
| "js_String (JStr s) = s"
| "js_String (JArr xs) = join '','' (map (\<lambda>x. if nullish x then [] else js_String x) xs)"
| "js_String (JObj kvs) = ''[object Object]''"

record Author =
  name :: string
  email :: string
  phone :: string

record SummaryParagraph =
  heading :: string
  content :: string

text \<open>
  The first-page record \<^verbatim>\<open>Record<string, unknown>\<close>. Its entries are untyped (\<open>obj\<close>);
  the three list-valued entries are held at the types the code asserts for them
  (\<^verbatim>\<open>as Author[] | undefined\<close>, \<^verbatim>\<open>as string[] | undefined\<close>,
  \<^verbatim>\<open>as SummaryParagraph[] | undefined\<close>), \<open>None\<close> when the key is missing.
\<close>

record FirstPage =
  obj :: props
  authors :: "Author list option"
  bulletPoints :: "string list option"
  summaryParagraphs :: "SummaryParagraph list option"

definition field :: "FirstPage \<Rightarrow> string \<Rightarrow> jsval" where
  "field firstPage k = get (JObj (obj firstPage)) k"

text \<open>\<^verbatim>\<open>a || b\<close>.\<close>

definition or_else :: "jsval \<Rightarrow> jsval \<Rightarrow> jsval" where
  "or_else a b = (if truthy a then a else b)"

definition metadataFields :: "string list" where
  "metadataFields =
     [''reportType'', ''reportDate'', ''companyName'', ''sectorName'', ''bloombergCode'',
      ''rating'', ''previousRating'', ''targetPrice'', ''marketPrice'', ''upsideDownside'']"

text \<open>
  The label of lines 43--46, on ASCII text: \<^verbatim>\<open>replace(/([A-Z])/g, " $1")\<close>, then
  \<^verbatim>\<open>replace(/^./, s => s.toUpperCase())\<close> (the dot matches no line terminator), then
  \<^verbatim>\<open>trim()\<close>.
\<close>

definition isUpper :: "char \<Rightarrow> bool" where
  "isUpper c = (65 \<le> (of_char c :: nat) \<and> (of_char c :: nat) \<le> 90)"

definition toUpperCase :: "char \<Rightarrow> char" where
  "toUpperCase c =
     (if 97 \<le> (of_char c :: nat) \<and> (of_char c :: nat) \<le> 122
      then char_of ((of_char c :: nat) - 32) else c)"

definition isSpace :: "char \<Rightarrow> bool" where
  "isSpace c = ((of_char c :: nat) = 32 \<or> (9 \<le> (of_char c :: nat) \<and> (of_char c :: nat) \<le> 13))"

definition spaceBeforeUpper :: "string \<Rightarrow> string" where
  "spaceBeforeUpper s = concat (map (\<lambda>c. if isUpper c then [CHR '' '', c] else [c]) s)"

fun upperFirst :: "string \<Rightarrow> string" where
  "upperFirst [] = []"
| "upperFirst (c # cs) =
     (if c = CHR 0x0A \<or> c = CHR 0x0D then c # cs else toUpperCase c # cs)"

definition trim :: "string \<Rightarrow> string" where
  "trim s = rev (dropWhile isSpace (rev (dropWhile isSpace s)))"

definition label :: "string \<Rightarrow> string" where
  "label fld = trim (upperFirst (spaceBeforeUpper fld))"

text \<open>The loop of lines 41--53, pushing on \<^verbatim>\<open>displayMetadata\<close>.\<close>

fun metadataLoop ::
  "FirstPage \<Rightarrow> string list \<Rightarrow> (string \<times> string) list \<Rightarrow> (string \<times> string) list" where
  "metadataLoop firstPage [] displayMetadata = displayMetadata"
| "metadataLoop firstPage (fld # rest) displayMetadata =
     (if field firstPage fld \<noteq> JUndefined \<and> field firstPage fld \<noteq> JNull then
        (let v = js_String (field firstPage fld);
             v = (if fld = ''upsideDownside'' then v @ ''%'' else v)
         in metadataLoop firstPage rest (displayMetadata @ [(label fld, v)]))
      else metadataLoop firstPage rest displayMetadata)"

definition authorLines :: "Author \<Rightarrow> string list" where
  "authorLines author =
     [''- **'' @ name author @ ''**''] @
     (if email author \<noteq> [] then [''  - Email: '' @ email author] else []) @
     (if phone author \<noteq> [] then [''  - Phone: '' @ phone author] else [])"

definition paragraphLines :: "SummaryParagraph \<Rightarrow> string list" where
  "paragraphLines para =
     (if heading para \<noteq> [] then [''### '' @ heading para, ''''] else []) @
     [content para, '''']"

text \<open>
  \<^verbatim>\<open>generateFirstPageMarkdown\<close> pushes six groups of lines on \<^verbatim>\<open>lines\<close>, one after the
  other; each group is a function here. Lines 15--18: the title.
\<close>

definition titleLines :: "FirstPage \<Rightarrow> string list" where
  "titleLines firstPage =
     (let title = or_else (field firstPage ''reportTitle'')
                    (or_else (field firstPage ''title'') (JStr ''Report''))
      in [''# '' @ js_String title, ''''])"

text \<open>Lines 20--24: the subtitle.\<close>

definition subtitleLines :: "FirstPage \<Rightarrow> string list" where
  "subtitleLines firstPage =
     (if truthy (field firstPage ''reportSubTitle'')
      then [''## '' @ js_String (field firstPage ''reportSubTitle''), '''']
      else [])"

text \<open>Lines 26--62: the metadata table.\<close>

definition metadataTable :: "FirstPage \<Rightarrow> string list" where
  "metadataTable firstPage =
     (let displayMetadata = metadataLoop firstPage metadataFields []
      in if length displayMetadata > 0
         then [''| Field | Value |'', ''|-------|-------|''] @
              map (\<lambda>(l, v). ''| '' @ l @ '' | '' @ v @ '' |'') displayMetadata @ ['''']
         else [])"

text \<open>Lines 64--75, 77--86 and 88--101: authors, bullet points, summary paragraphs.\<close>

definition authorsSection :: "FirstPage \<Rightarrow> string list" where
  "authorsSection firstPage =
     (case authors firstPage of
        None \<Rightarrow> []
      | Some as \<Rightarrow>
          if length as > 0
          then [''## Authors'', ''''] @ concat (map authorLines as) @ ['''']
          else [])"

definition bulletPointsSection :: "FirstPage \<Rightarrow> string list" where
  "bulletPointsSection firstPage =
     (case bulletPoints firstPage of
        None \<Rightarrow> []
      | Some bs \<Rightarrow>
          if length bs > 0
          then [''## Key Highlights'', ''''] @ map (\<lambda>point. ''- '' @ point) bs @ ['''']
          else [])"

definition summarySection :: "FirstPage \<Rightarrow> string list" where
  "summarySection firstPage =
     (case summaryParagraphs firstPage of
        None \<Rightarrow> []
      | Some sps \<Rightarrow>
          if length sps > 0
          then [''## Summary'', ''''] @ concat (map paragraphLines sps)
          else [])"

definition generateFirstPageMarkdown :: "FirstPage \<Rightarrow> string list" where
  "generateFirstPageMarkdown firstPage =
     (let lines = [];
          lines = lines @ titleLines firstPage;
          lines = lines @ subtitleLines firstPage;
          lines = lines @ metadataTable firstPage;
          lines = lines @ authorsSection firstPage;
          lines = lines @ bulletPointsSection firstPage;
          lines = lines @ summarySection firstPage
      in lines)"

section \<open>index.ts: generateInnerPagesMarkdown\<close>

record TableData =
  headers :: "string list"
  rows :: "string list list"

text \<open>
  A content block. The style is a string, so that the \<^verbatim>\<open>default\<close> branch of the switch
  can be reached; a text or table that is \<^verbatim>\<open>null\<close> or missing is \<open>None\<close>; the page
  number is the integer that \<^verbatim>\<open>processPdf\<close> attaches, \<open>None\<close> when missing.
\<close>

record InnerPageParagraph =
  style :: string
  text' :: "string option"
  table :: "TableData option"
  pageNumber :: "int option"

definition toStringInt :: "int \<Rightarrow> string" where
  "toStringInt i = (if i < 0 then ''-'' @ toStringNat (nat (- i)) else toStringNat (nat i))"

definition rule :: string where
  "rule = ''-----------------------------------------''"

definition pageMarker :: "int \<Rightarrow> string list" where
  "pageMarker currentPage = ['''', ''Page '' @ toStringInt currentPage, rule, '''']"

text \<open>The switch of lines 124--191: the lines pushed for one block.\<close>

definition switchLines :: "InnerPageParagraph \<Rightarrow> string list" where
  "switchLines para =
     (let txt = (case text' para of None \<Rightarrow> [] | Some s \<Rightarrow> s) in
      if style para = ''page header'' then []
      else if style para = ''chapter heading'' then [''## '' @ txt, '''']
      else if style para = ''subheading 1'' then [''### '' @ txt, '''']
      else if style para = ''subheading 2'' then [''#### '' @ txt, '''']
      else if style para = ''body text'' then [txt, '''']
      else if style para = ''callout'' then [''> **'' @ txt @ ''**'', '''']
      else if style para = ''exhibit title'' then [''**'' @ txt @ ''**'', '''']
      else if style para = ''exhibit source'' then [''*'' @ txt @ ''*'', '''']
      else if style para = ''bullet level 1'' then [''- '' @ txt]
      else if style para = ''bullet level 2'' then [''  - '' @ txt]
      else if style para = ''bullet level 3'' then [''    - '' @ txt]
      else if style para = ''page footer'' then []
      else if style para = ''footnote'' then [''<sup>'' @ txt @ ''</sup>'', '''']
      else if style para = ''table'' then
        (case table para of
           None \<Rightarrow> []
         | Some t \<Rightarrow>
             if length (headers t) > 0 then
               [''| '' @ join '' | '' (headers t) @ '' |'',
                ''| '' @ join '' | '' (map (\<lambda>h. ''---'') (headers t)) @ '' |''] @
               map (\<lambda>row. ''| '' @ join '' | '' row @ '' |'') (rows t) @
               ['''']
             else [])
      else if txt \<noteq> [] then [txt, ''''] else [])"

text \<open>The loop of lines 115--192; the state is \<^verbatim>\<open>currentPage\<close> and \<^verbatim>\<open>lines\<close>.\<close>

fun innerLoop ::
  "InnerPageParagraph list \<Rightarrow> int option \<times> string list \<Rightarrow> int option \<times> string list" where
  "innerLoop [] st = st"
| "innerLoop (para # rest) (currentPage, lines) =
     (case pageNumber para of
        Some n \<Rightarrow>
          if Some n \<noteq> currentPage
          then innerLoop rest (Some n, lines @ pageMarker n @ switchLines para)
          else innerLoop rest (currentPage, lines @ switchLines para)
      | None \<Rightarrow> innerLoop rest (currentPage, lines @ switchLines para))"

definition generateInnerPagesMarkdown :: "InnerPageParagraph list \<Rightarrow> string list" where
  "generateInnerPagesMarkdown innerPagesParagraphs =
     (if length innerPagesParagraphs > 0
      then snd (innerLoop innerPagesParagraphs (None, []))
      else [])"

section \<open>Notions of the specification\<close>

text \<open>The property entries the normalizer iterates over (line 71).\<close>

definition declaredProperties :: "jsval \<Rightarrow> props" where
  "declaredProperties fp =
     (let p = get fp ''properties'' in spread (if truthy p then p else JObj []))"

text \<open>The fourteen style tags of \<^verbatim>\<open>ParagraphStyle\<close> (types.ts).\<close>

definition paragraphStyles :: "string list" where
  "paragraphStyles =
     [''page header'', ''chapter heading'', ''subheading 1'', ''subheading 2'', ''body text'',
      ''callout'', ''exhibit title'', ''exhibit source'', ''bullet level 1'', ''bullet level 2'',
      ''bullet level 3'', ''page footer'', ''footnote'', ''table'']"

text \<open>What each text-rendering style shows for the empty string.\<close>

definition blankRendering :: "(string \<times> string list) list" where
  "blankRendering =
     [(''chapter heading'', [''## '', '''']),
      (''subheading 1'', [''### '', '''']),
      (''subheading 2'', [''#### '', '''']),
      (''body text'', ['''', '''']),
      (''callout'', [''> ****'', '''']),
      (''exhibit title'', [''****'', '''']),
      (''exhibit source'', [''**'', '''']),
      (''bullet level 1'', [''- '']),
      (''bullet level 2'', [''  - '']),
      (''bullet level 3'', [''    - '']),
      (''footnote'', [''<sup></sup>'', ''''])]"

text \<open>The page numbers that are present, in block order.\<close>

definition present :: "InnerPageParagraph list \<Rightarrow> int list" where
  "present ps = concat (map (\<lambda>p. case pageNumber p of None \<Rightarrow> [] | Some n \<Rightarrow> [n]) ps)"

text \<open>The value of \<^verbatim>\<open>currentPage\<close> after the blocks \<open>ps\<close>: the last page number present.\<close>

definition lastPage :: "InnerPageParagraph list \<Rightarrow> int option" where
  "lastPage ps = (if present ps = [] then None else Some (last (present ps)))"

text \<open>
  The page-boundary marker that block \<open>p\<close> gets when it follows the blocks \<open>ps\<close>: none
  when its page number is missing or is the current page.
\<close>

definition boundary :: "InnerPageParagraph list \<Rightarrow> InnerPageParagraph \<Rightarrow> string list" where
  "boundary ps p =
     (case pageNumber p of
        None \<Rightarrow> []
      | Some n \<Rightarrow> if lastPage ps = Some n then [] else pageMarker n)"



text \<open>The lines the loop pushes for the blocks \<open>ps\<close> when it starts with \<^verbatim>\<open>currentPage\<close> = \<open>cur\<close>.\<close>

fun pushed :: "int option \<Rightarrow> InnerPageParagraph list \<Rightarrow> string list" where
  "pushed cur [] = []"
| "pushed cur (p # ps) =
     (case pageNumber p of
        None \<Rightarrow> switchLines p @ pushed cur ps
      | Some n \<Rightarrow>
          if Some n = cur then switchLines p @ pushed cur ps
          else pageMarker n @ switchLines p @ pushed (Some n) ps)"


text \<open>The metadata cell of a field: its value as a string, with a percent sign for the upside.\<close>

definition cell :: "FirstPage \<Rightarrow> string \<Rightarrow> string" where
  "cell firstPage fld =
     js_String (field firstPage fld) @ (if fld = ''upsideDownside'' then ''%'' else [])"

definition qualifies :: "FirstPage \<Rightarrow> string \<Rightarrow> bool" where
  "qualifies firstPage fld \<longleftrightarrow> field firstPage fld \<noteq> JUndefined \<and> field firstPage fld \<noteq> JNull"

text \<open>
  Plain property names: no name twice (no JavaScript object holds a key twice) and none
  of them \<^verbatim>\<open>__proto__\<close>, the one name that an assignment does not store.
\<close>

definition plainNames :: "string list \<Rightarrow> bool" where
  "plainNames ks \<longleftrightarrow> distinct ks \<and> ''__proto__'' \<notin> set ks"

text \<open>A \<^verbatim>\<open>format\<close> keyword at any depth of a value.\<close>

fun containsFormat :: "jsval \<Rightarrow> bool" where
  "containsFormat (JObj kvs) = (\<exists>kv\<in>set kvs. fst kv = ''format'' \<or> containsFormat (snd kv))"
| "containsFormat (JArr xs) = (\<exists>x\<in>set xs. containsFormat x)"
| "containsFormat v = False"

text \<open>A key among the own keys of an object.\<close>

fun hasKey :: "string \<Rightarrow> jsval \<Rightarrow> bool" where
  "hasKey k (JObj kvs) = (k \<in> set (map fst kvs))"
| "hasKey k v = False"

text \<open>The two tests of the normalizer (lines 81, 83 and 104), and the properties of a node.\<close>

definition isArrayNode :: "jsval \<Rightarrow> bool" where
  "isArrayNode v \<longleftrightarrow> get v ''type'' = JStr ''array'' \<and> truthy (get v ''items'')"

definition isObjectNode :: "jsval \<Rightarrow> bool" where
  "isObjectNode v \<longleftrightarrow> get v ''type'' = JStr ''object'' \<and> truthy (get v ''properties'')"

definition propertiesOf :: "jsval \<Rightarrow> props" where
  "propertiesOf v = spread (get v ''properties'')"

text \<open>
  The names that the loops of the normalizer store are those of the declared properties,
  of the properties of each declared nested object, and of the properties of the items
  of each declared array of objects. A first-page node has plain names when each of
  these lists is plain.
\<close>

definition plainSchema :: "jsval \<Rightarrow> bool" where
  "plainSchema fp \<longleftrightarrow>
     plainNames (map fst (declaredProperties fp)) \<and>
     (\<forall>kv\<in>set (declaredProperties fp).
        (isArrayNode (snd kv) \<and> isObjectNode (get (snd kv) ''items'') \<longrightarrow>
           plainNames (map fst (propertiesOf (get (snd kv) ''items'')))) \<and>
        (\<not> isArrayNode (snd kv) \<and> isObjectNode (snd kv) \<longrightarrow>
           plainNames (map fst (propertiesOf (snd kv)))))"

text \<open>The normalized schema inside the payload that \<open>buildFirstPageJsonSchema\<close> returns.\<close>

definition schemaOf :: "jsval \<Rightarrow> jsval" where
  "schemaOf out = get (get out ''json_schema'') ''schema''"

text \<open>What the inner loop stores for a nested property: a copy without \<^verbatim>\<open>format\<close>.\<close>

definition clean :: "jsval \<Rightarrow> jsval" where
  "clean x = JObj (deleteKey ''format'' (spread x))"

text \<open>
  A strict object node: type object, no additional properties, and a \<^verbatim>\<open>required\<close> list
  that is the list of its own property names in enumeration order.
\<close>

definition strictNode :: "jsval \<Rightarrow> bool" where
  "strictNode v \<longleftrightarrow>
     get v ''type'' = JStr ''object'' \<and>
     get v ''additionalProperties'' = JBool False \<and>
     get v ''required'' = JArr (map JStr (map fst (propertiesOf v)))"

text \<open>
  The scenario of the specification: an array of authors whose email carries a format,
  beside a dated leaf property; and the payload it normalizes to.
\<close>

definition authorsDefinition :: SchemaDefinition where
  "authorsDefinition =
     \<lparr>SchemaDefinition.name = ''stock_report'',
      firstPageSchema =
        JObj [(''properties'',
          JObj [(''authors'',
                  JObj [(''type'', JStr ''array''),
                        (''items'',
                           JObj [(''type'', JStr ''object''),
                                 (''properties'',
                                    JObj [(''name'', JObj [(''type'', JStr ''string'')]),
                                          (''email'', JObj [(''type'', JStr ''string''),
                                                            (''format'', JStr ''email'')]),
                                          (''phone'', JObj [(''type'', JStr ''string'')])])])]),
                (''reportDate'',
                  JObj [(''type'', JStr ''string''), (''format'', JStr ''date'')])])],
      innerPagesSchema = JObj [],
      firstPagePrompt = ''''\<rparr>"

definition authorsNormalized :: jsval where
  "authorsNormalized =
     JObj [(''type'', JStr ''json_schema''),
       (''json_schema'',
          JObj [(''name'', JStr ''first_page_response''),
                (''strict'', JBool True),
                (''schema'',
                   JObj [(''type'', JStr ''object''),
                     (''properties'',
                        JObj [(''authors'',
                                JObj [(''type'', JStr ''array''),
                                  (''items'',
                                     JObj [(''type'', JStr ''object''),
                                       (''properties'',
                                          JObj [(''name'', JObj [(''type'', JStr ''string'')]),
                                                (''email'', JObj [(''type'', JStr ''string'')]),
                                                (''phone'', JObj [(''type'', JStr ''string'')])]),
                                       (''required'',
                                          JArr [JStr ''name'', JStr ''email'', JStr ''phone'']),
                                       (''additionalProperties'', JBool False)])]),
                              (''reportDate'', JObj [(''type'', JStr ''string'')])]),
                     (''required'', JArr [JStr ''authors'', JStr ''reportDate'']),
                     (''additionalProperties'', JBool False)])])]"

text \<open>
  A schema with an object nested in a nested object, and the payload it normalizes to:
  the inner object \<^verbatim>\<open>address\<close> is copied as it is.
\<close>

definition deepDefinition :: SchemaDefinition where
  "deepDefinition =
     \<lparr>SchemaDefinition.name = ''stock_report'',
      firstPageSchema =
        JObj [(''properties'',
          JObj [(''company'',
            JObj [(''type'', JStr ''object''),
                  (''properties'',
                    JObj [(''address'',
                      JObj [(''type'', JStr ''object''),
                            (''properties'',
                              JObj [(''zip'', JObj [(''type'', JStr ''string'')])])])])])])],
      innerPagesSchema = JObj [],
      firstPagePrompt = ''''\<rparr>"

definition deepNormalized :: jsval where
  "deepNormalized =
     JObj [(''type'', JStr ''json_schema''),
       (''json_schema'',
          JObj [(''name'', JStr ''first_page_response''),
                (''strict'', JBool True),
                (''schema'',
                   JObj [(''type'', JStr ''object''),
                     (''properties'',
                        JObj [(''company'',
                          JObj [(''type'', JStr ''object''),
                            (''properties'',
                               JObj [(''address'',
                                 JObj [(''type'', JStr ''object''),
                                       (''properties'',
                                          JObj [(''zip'',
                                            JObj [(''type'', JStr ''string'')])])])]),
                            (''required'', JArr [JStr ''address'']),
                            (''additionalProperties'', JBool False)])]),
                     (''required'', JArr [JStr ''company'']),
                     (''additionalProperties'', JBool False)])])]"

text \<open>
  A schema that declares a property named \<^verbatim>\<open>__proto__\<close>, the payload it normalizes to,
  and the payload that the schema inside that payload normalizes to.
\<close>

definition protoDefinition :: SchemaDefinition where
  "protoDefinition =
     \<lparr>SchemaDefinition.name = ''stock_report'',
      firstPageSchema =
        JObj [(''properties'', JObj [(''__proto__'', JObj [(''type'', JStr ''string'')])])],
      innerPagesSchema = JObj [],
      firstPagePrompt = ''''\<rparr>"

definition protoNormalized :: jsval where
  "protoNormalized =
     JObj [(''type'', JStr ''json_schema''),
       (''json_schema'',
          JObj [(''name'', JStr ''first_page_response''),
                (''strict'', JBool True),
                (''schema'',
                   JObj [(''type'', JStr ''object''),
                         (''properties'', JObj []),
                         (''required'', JArr [JStr ''__proto__'']),
                         (''additionalProperties'', JBool False)])])]"


section \<open>Basic facts\<close>

lemma assign_proto [simp]: "assign ''__proto__'' v kvs = kvs"
  by (simp add: assign_def)

lemma assign_store [simp]: "k \<noteq> ''__proto__'' \<Longrightarrow> assign k v kvs = store k v kvs"
  by (simp add: assign_def)

lemma truthy_not_nullish: "truthy v \<Longrightarrow> \<not> nullish v"
  by (cases v) auto

lemma normalizeProperty_None: "normalizeProperty v = None \<longleftrightarrow> nullish v"
  by (auto simp: normalizeProperty_def member_def Object_entries_def truthy_not_nullish)

lemma propertiesLoop_None:
  "propertiesLoop es st = None \<longleftrightarrow> (\<exists>kv\<in>set es. nullish (snd kv))"
proof (induction es arbitrary: st)
  case Nil
  then show ?case by simp
next
  case (Cons e es)
  obtain k v where e: "e = (k, v)" by (cases e)
  obtain sp rq where st: "st = (sp, rq)" by (cases st)
  show ?case
    using Cons.IH normalizeProperty_None [of v]
    by (cases "normalizeProperty v") (auto simp: e st)
qed

lemma build_unfold:
  "\<not> nullish (firstPageSchema schema) \<Longrightarrow>
   buildFirstPageJsonSchema schema =
     Option.bind (propertiesLoop (declaredProperties (firstPageSchema schema)) ([], []))
       (\<lambda>(sp, rq). Some (response_format (strictSchema sp rq)))"
  by (auto simp: buildFirstPageJsonSchema_def member_def Object_entries_def declaredProperties_def
      Let_def truthy_not_nullish split: option.splits)

section \<open>C7: when normalization returns\<close>

text \<open>
  C7, as the specification states it: normalization never throws, for every input.
  The code reads \<^verbatim>\<open>prop.type\<close> of every declared property without a guard, so a property
  whose value is \<^verbatim>\<open>null\<close> makes it throw a \<^verbatim>\<open>TypeError\<close>: the schema
  \<^verbatim>\<open>{"properties": {"a": null}}\<close> is such an input.
\<close>

theorem buildFirstPageJsonSchema_null_property_throws:
  "buildFirstPageJsonSchema
     \<lparr>SchemaDefinition.name = ''stock_report'',
      firstPageSchema = JObj [(''properties'', JObj [(''a'', JNull)])],
      innerPagesSchema = JObj [], firstPagePrompt = ''''\<rparr> = None"
  by (simp add: buildFirstPageJsonSchema_def member_def Object_entries_def normalizeProperty_def)

text \<open>
  C7, amended: \<open>buildFirstPageJsonSchema\<close> returns exactly when the first-page node is
  neither \<^verbatim>\<open>null\<close> nor \<^verbatim>\<open>undefined\<close> and no declared top-level property has the value
  \<^verbatim>\<open>null\<close> or \<^verbatim>\<open>undefined\<close>; and when the first-page node has no \<^verbatim>\<open>properties\<close> key or
  declares no property, the result is the empty strict object schema (type object, empty
  properties, empty required, additionalProperties false).
\<close>

theorem buildFirstPageJsonSchema_returns:
  "((\<exists>out. buildFirstPageJsonSchema schema = Some out) \<longleftrightarrow>
      \<not> nullish (firstPageSchema schema) \<and>
      (\<forall>kv\<in>set (declaredProperties (firstPageSchema schema)). \<not> nullish (snd kv))) \<and>
   (\<not> nullish (firstPageSchema schema) \<and> declaredProperties (firstPageSchema schema) = [] \<longrightarrow>
      buildFirstPageJsonSchema schema =
        Some (JObj [(''type'', JStr ''json_schema''),
                (''json_schema'',
                   JObj [(''name'', JStr ''first_page_response''),
                         (''strict'', JBool True),
                         (''schema'',
                            JObj [(''type'', JStr ''object''),
                                  (''properties'', JObj []),
                                  (''required'', JArr []),
                                  (''additionalProperties'', JBool False)])])]))"
proof (cases "nullish (firstPageSchema schema)")
  case True
  then show ?thesis by (simp add: buildFirstPageJsonSchema_def member_def)
next
  case False
  have "(buildFirstPageJsonSchema schema = None) \<longleftrightarrow>
        (\<exists>kv\<in>set (declaredProperties (firstPageSchema schema)). nullish (snd kv))"
    using propertiesLoop_None [of "declaredProperties (firstPageSchema schema)" "([], [])"]
    by (auto simp: build_unfold [OF False] bind_eq_None_conv)
  then show ?thesis
    using False by (auto simp: build_unfold response_format_def strictSchema_def)
qed

theorem buildFirstPageJsonSchema_returns_witness:
  "\<not> nullish (JObj [(''properties'', JObj [(''email'', JObj [(''type'', JStr ''string'')])])]) \<and>
   list_all (\<lambda>kv. \<not> nullish (snd kv))
     (declaredProperties
        (JObj [(''properties'', JObj [(''email'', JObj [(''type'', JStr ''string'')])])])) \<and>
   (\<exists>out. buildFirstPageJsonSchema
      \<lparr>SchemaDefinition.name = ''stock_report'',
       firstPageSchema =
         JObj [(''properties'', JObj [(''email'', JObj [(''type'', JStr ''string'')])])],
       innerPagesSchema = JObj [], firstPagePrompt = ''''\<rparr> = Some out) \<and>
   \<not> nullish (JObj [(''title'', JStr ''no properties key'')]) \<and>
   declaredProperties (JObj [(''title'', JStr ''no properties key'')]) = [] \<and>
   buildFirstPageJsonSchema
      \<lparr>SchemaDefinition.name = ''stock_report'',
       firstPageSchema = JObj [(''title'', JStr ''no properties key'')],
       innerPagesSchema = JObj [], firstPagePrompt = ''''\<rparr> =
     Some (JObj [(''type'', JStr ''json_schema''),
             (''json_schema'',
                JObj [(''name'', JStr ''first_page_response''),
                      (''strict'', JBool True),
                      (''schema'',
                         JObj [(''type'', JStr ''object''),
                               (''properties'', JObj []),
                               (''required'', JArr []),
                               (''additionalProperties'', JBool False)])])])"
  using
    buildFirstPageJsonSchema_returns [of
      "\<lparr>SchemaDefinition.name = ''stock_report'',
        firstPageSchema =
          JObj [(''properties'', JObj [(''email'', JObj [(''type'', JStr ''string'')])])],
        innerPagesSchema = JObj [], firstPagePrompt = ''''\<rparr>"]
    buildFirstPageJsonSchema_returns [of
      "\<lparr>SchemaDefinition.name = ''stock_report'',
        firstPageSchema = JObj [(''title'', JStr ''no properties key'')],
        innerPagesSchema = JObj [], firstPagePrompt = ''''\<rparr>"]
  by (simp add: declaredProperties_def)

section \<open>Facts about the inner-pages loop\<close>

lemma present_Cons:
  "present (p # ps) = (case pageNumber p of None \<Rightarrow> [] | Some n \<Rightarrow> [n]) @ present ps"
  by (simp add: present_def)

lemma innerLoop_pushed:
  "innerLoop ps (cur, ls) =
     (if present ps = [] then cur else Some (last (present ps)), ls @ pushed cur ps)"
proof (induction ps arbitrary: cur ls)
  case Nil
  then show ?case by (simp add: present_def)
next
  case (Cons p ps)
  show ?case
    by (cases "pageNumber p") (simp_all add: Cons.IH present_Cons)
qed

lemma render_pushed: "generateInnerPagesMarkdown ps = pushed None ps"
  by (cases ps) (simp_all add: generateInnerPagesMarkdown_def innerLoop_pushed del: innerLoop.simps)

lemma pushed_append:
  "pushed cur (ps @ qs) =
     pushed cur ps @ pushed (if present ps = [] then cur else Some (last (present ps))) qs"
proof (induction ps arbitrary: cur)
  case Nil
  then show ?case by (simp add: present_def)
next
  case (Cons p ps)
  show ?case
    by (cases "pageNumber p") (simp_all add: Cons.IH present_Cons)
qed

lemma render_snoc:
  "generateInnerPagesMarkdown (ps @ [p]) =
     generateInnerPagesMarkdown ps @ boundary ps p @ switchLines p"
  by (cases "pageNumber p") (auto simp: render_pushed pushed_append boundary_def lastPage_def)

lemma render_prefix:
  "prefix (generateInnerPagesMarkdown ps) (generateInnerPagesMarkdown (ps @ qs))"
  by (simp add: render_pushed pushed_append)










section \<open>C2: page-boundary markers\<close>



section \<open>C5: table blocks\<close>

text \<open>
  C5: a table-styled block whose table has non-empty headers of length k adds, after the
  lines of the blocks before it and its page-boundary marker if it starts a page, the
  header row, a separator row of exactly k \<open>---\<close> cells, one line per data row with that
  row's own cells in their order (a short or long row is not padded or cut), and a blank
  line; with empty headers it adds nothing. The lines of later blocks come after these.
\<close>

theorem table_block_lines:
  assumes "style p = ''table''" and "table p = Some t"
  shows "generateInnerPagesMarkdown (ps @ [p]) =
           generateInnerPagesMarkdown ps @ boundary ps p @
           (if headers t = [] then []
            else [''| '' @ join '' | '' (headers t) @ '' |'',
                  ''| '' @ join '' | '' (replicate (length (headers t)) ''---'') @ '' |''] @
                 map (\<lambda>row. ''| '' @ join '' | '' row @ '' |'') (rows t) @ ['''']) \<and>
         prefix (generateInnerPagesMarkdown (ps @ [p])) (generateInnerPagesMarkdown (ps @ p # qs))"
proof -
  have "switchLines p =
          (if headers t = [] then []
            else [''| '' @ join '' | '' (headers t) @ '' |'',
                  ''| '' @ join '' | '' (replicate (length (headers t)) ''---'') @ '' |''] @
                 map (\<lambda>row. ''| '' @ join '' | '' row @ '' |'') (rows t) @ [''''])"
    using assms by (simp add: switchLines_def map_replicate_const)
  moreover have "prefix (generateInnerPagesMarkdown (ps @ [p]))
      (generateInnerPagesMarkdown ((ps @ [p]) @ qs))"
    by (rule render_prefix)
  ultimately show ?thesis by (simp add: render_snoc)
qed

theorem table_block_lines_witness:
  "style \<lparr>style = ''table'', text' = None,
      table = Some \<lparr>headers = [''Year'', ''Sales'', ''Profit''],
                    rows = [[''2023'', ''10'', ''2''], [''2024'', ''12'']]\<rparr>,
      pageNumber = Some 2\<rparr> = ''table'' \<and>
   generateInnerPagesMarkdown
     ([\<lparr>style = ''body text'', text' = Some ''Results'', table = None, pageNumber = Some 2\<rparr>] @
      [\<lparr>style = ''table'', text' = None,
        table = Some \<lparr>headers = [''Year'', ''Sales'', ''Profit''],
                      rows = [[''2023'', ''10'', ''2''], [''2024'', ''12'']]\<rparr>,
        pageNumber = Some 2\<rparr>]) =
     ['''', ''Page 2'', ''-----------------------------------------'', '''',
      ''Results'', '''',
      ''| Year | Sales | Profit |'',
      ''| --- | --- | --- |'',
      ''| 2023 | 10 | 2 |'',
      ''| 2024 | 12 |'',
      '''']"
  using table_block_lines [of
      "\<lparr>style = ''table'', text' = None,
        table = Some \<lparr>headers = [''Year'', ''Sales'', ''Profit''],
                      rows = [[''2023'', ''10'', ''2''], [''2024'', ''12'']]\<rparr>,
        pageNumber = Some 2\<rparr>"
      "\<lparr>headers = [''Year'', ''Sales'', ''Profit''],
        rows = [[''2023'', ''10'', ''2''], [''2024'', ''12'']]\<rparr>"
      "[\<lparr>style = ''body text'', text' = Some ''Results'', table = None, pageNumber = Some 2\<rparr>]"
      "[]"]
  by (simp add: generateInnerPagesMarkdown_def switchLines_def boundary_def lastPage_def
      present_def pageMarker_def rule_def toStringInt_def toStringNat.simps digit_def)

section \<open>C10: blocks without text\<close>

text \<open>
  C10: a block of one of the eleven text-rendering styles (every style but page header,
  page footer and table) whose text is null, missing or empty still adds that style's
  line, formatted around the empty string (\<open>## \<close> for a chapter heading, \<open>- \<close> for a bullet
  of level 1), and is never skipped; a block whose style is none of the fourteen tags,
  with such a text, adds no line.
\<close>

theorem missing_text_lines:
  assumes "text' p = None \<or> text' p = Some []"
  shows "(\<forall>ls. map_of blankRendering (style p) = Some ls \<longrightarrow>
            ls \<noteq> [] \<and>
            generateInnerPagesMarkdown (ps @ [p]) =
              generateInnerPagesMarkdown ps @ boundary ps p @ ls) \<and>
         (style p \<notin> set paragraphStyles \<longrightarrow>
            generateInnerPagesMarkdown (ps @ [p]) = generateInnerPagesMarkdown ps @ boundary ps p)"
proof -
  have a: "\<forall>ls. map_of blankRendering (style p) = Some ls \<longrightarrow> ls \<noteq> [] \<and> switchLines p = ls"
    using assms by (auto simp: blankRendering_def switchLines_def split: if_splits)
  have b: "style p \<notin> set paragraphStyles \<longrightarrow> switchLines p = []"
    using assms by (auto simp: paragraphStyles_def switchLines_def)
  show ?thesis using a b by (simp add: render_snoc)
qed

theorem missing_text_lines_witness:
  "text' \<lparr>style = ''chapter heading'', text' = None, table = None, pageNumber = Some 2\<rparr> = None \<and>
   map_of blankRendering ''chapter heading'' = Some [''## '', ''''] \<and>
   generateInnerPagesMarkdown
     ([] @ [\<lparr>style = ''chapter heading'', text' = None, table = None, pageNumber = Some 2\<rparr>]) =
     ['''', ''Page 2'', ''-----------------------------------------'', '''', ''## '', ''''] \<and>
   ''sidebar'' \<notin> set paragraphStyles \<and>
   generateInnerPagesMarkdown
     ([] @ [\<lparr>style = ''sidebar'', text' = Some [], table = None, pageNumber = None\<rparr>]) = []"
  using
    missing_text_lines [of
      "\<lparr>style = ''chapter heading'', text' = None, table = None, pageNumber = Some 2\<rparr>" "[]"]
    missing_text_lines [of
      "\<lparr>style = ''sidebar'', text' = Some [], table = None, pageNumber = None\<rparr>" "[]"]
  by (simp add: blankRendering_def paragraphStyles_def generateInnerPagesMarkdown_def
      boundary_def lastPage_def present_def pageMarker_def rule_def toStringInt_def
      toStringNat.simps digit_def)

section \<open>Facts about the first page and the prompt\<close>

lemma labels:
  "map label metadataFields =
     [''Report Type'', ''Report Date'', ''Company Name'', ''Sector Name'', ''Bloomberg Code'',
      ''Rating'', ''Previous Rating'', ''Target Price'', ''Market Price'', ''Upside Downside'']"
  by code_simp

lemma metadataLoop_filter:
  "metadataLoop fp fs acc =
     acc @ map (\<lambda>f. (label f, cell fp f)) (filter (qualifies fp) fs)"
  by (induction fs arbitrary: acc) (simp_all add: Let_def cell_def qualifies_def)

lemma generate_sections:
  "generateFirstPageMarkdown fp =
     titleLines fp @ subtitleLines fp @ metadataTable fp @ authorsSection fp @
     bulletPointsSection fp @ summarySection fp"
  by (simp add: generateFirstPageMarkdown_def)

lemma includes_sublist: "includes' s sub \<longleftrightarrow> sublist sub s"
  by (induction s) (auto simp: sublist_Cons_right)

section \<open>C6: the metadata table\<close>

text \<open>
  C6: the metadata table of \<open>generateFirstPageMarkdown\<close> looks at exactly the ten listed
  field names, in that order; a field gives a row if and only if it is present and not
  null; the labels are the field names split before each inner capital, first letter in
  upper case (\<open>Report Type\<close>, ..., \<open>Upside Downside\<close>); the value is the field as a string,
  followed by a percent sign for \<open>upsideDownside\<close> only; and the whole table, its two
  header lines included, is left out when no field gives a row. The table comes right
  after the title and subtitle lines.
\<close>

theorem metadata_table:
  "metadataFields =
     [''reportType'', ''reportDate'', ''companyName'', ''sectorName'', ''bloombergCode'',
      ''rating'', ''previousRating'', ''targetPrice'', ''marketPrice'', ''upsideDownside''] \<and>
   map label metadataFields =
     [''Report Type'', ''Report Date'', ''Company Name'', ''Sector Name'', ''Bloomberg Code'',
      ''Rating'', ''Previous Rating'', ''Target Price'', ''Market Price'', ''Upside Downside''] \<and>
   metadataTable fp =
     (if filter (qualifies fp) metadataFields = [] then []
      else [''| Field | Value |'', ''|-------|-------|''] @
           map (\<lambda>f. ''| '' @ label f @ '' | '' @ js_String (field fp f) @
                      (if f = ''upsideDownside'' then ''%'' else []) @ '' |'')
             (filter (qualifies fp) metadataFields) @
           ['''']) \<and>
   generateFirstPageMarkdown fp =
     titleLines fp @ subtitleLines fp @ metadataTable fp @ authorsSection fp @
     bulletPointsSection fp @ summarySection fp"
proof -
  have "metadataTable fp =
     (if filter (qualifies fp) metadataFields = [] then []
      else [''| Field | Value |'', ''|-------|-------|''] @
           map (\<lambda>f. ''| '' @ label f @ '' | '' @ js_String (field fp f) @
                      (if f = ''upsideDownside'' then ''%'' else []) @ '' |'')
             (filter (qualifies fp) metadataFields) @
           [''''])"
    by (simp add: metadataTable_def metadataLoop_filter cell_def comp_def)
  then show ?thesis
    using labels generate_sections by (simp add: metadataFields_def)
qed

theorem metadata_table_witness:
  "generateFirstPageMarkdown
     \<lparr>obj = [(''reportTitle'', JStr ''Apple Inc.''), (''rating'', JStr ''Buy''),
             (''targetPrice'', JNum ''200''), (''previousRating'', JNull),
             (''upsideDownside'', JNum ''8.1''), (''analystNote'', JStr ''not listed'')],
      authors = None, bulletPoints = Some [], summaryParagraphs = None\<rparr> =
     [''# Apple Inc.'', '''',
      ''| Field | Value |'', ''|-------|-------|'',
      ''| Rating | Buy |'', ''| Target Price | 200 |'', ''| Upside Downside | 8.1% |'', '''']"
proof -
  let ?fp = "\<lparr>obj = [(''reportTitle'', JStr ''Apple Inc.''), (''rating'', JStr ''Buy''),
             (''targetPrice'', JNum ''200''), (''previousRating'', JNull),
             (''upsideDownside'', JNum ''8.1''), (''analystNote'', JStr ''not listed'')],
      authors = None, bulletPoints = Some [], summaryParagraphs = None\<rparr>"
  note t = metadata_table [of ?fp]
  have l: "label ''rating'' = ''Rating''" "label ''targetPrice'' = ''Target Price''"
    "label ''upsideDownside'' = ''Upside Downside''"
    using t by (simp_all add: metadataFields_def)
  have f: "filter (qualifies ?fp) metadataFields = [''rating'', ''targetPrice'', ''upsideDownside'']"
    by (simp add: metadataFields_def qualifies_def field_def)
  have m: "metadataTable ?fp =
     [''| Field | Value |'', ''|-------|-------|'',
      ''| Rating | Buy |'', ''| Target Price | 200 |'', ''| Upside Downside | 8.1% |'', '''']"
    using t by (simp add: f l field_def)
  have g: "generateFirstPageMarkdown ?fp =
     titleLines ?fp @ subtitleLines ?fp @ metadataTable ?fp @ authorsSection ?fp @
     bulletPointsSection ?fp @ summarySection ?fp"
    using t by simp
  show ?thesis
    by (simp add: g m field_def titleLines_def subtitleLines_def or_else_def
        authorsSection_def bulletPointsSection_def summarySection_def)
qed

section \<open>C9: title and subtitle by truthiness\<close>

text \<open>
  C9: the title and the subtitle are chosen by truthiness, not by presence. When
  \<open>reportTitle\<close> is present but falsy (the empty string, for one), the title line shows the
  \<open>title\<close> field if that is truthy and the literal \<open>Report\<close> otherwise. When
  \<open>reportSubTitle\<close> is present but falsy, there is no subtitle heading: the metadata table
  and the other sections follow the title line and its blank line at once.
\<close>

theorem title_truthiness:
  "(map_of (obj fp) ''reportTitle'' = Some v \<and> \<not> truthy v \<longrightarrow>
      generateFirstPageMarkdown fp =
        [''# '' @ (if truthy (field fp ''title'') then js_String (field fp ''title'')
                   else ''Report''), ''''] @
        subtitleLines fp @ metadataTable fp @ authorsSection fp @ bulletPointsSection fp @
        summarySection fp) \<and>
   (map_of (obj fp) ''reportSubTitle'' = Some s \<and> \<not> truthy s \<longrightarrow>
      generateFirstPageMarkdown fp =
        [''# '' @ js_String
           (if truthy (field fp ''reportTitle'') then field fp ''reportTitle''
            else if truthy (field fp ''title'') then field fp ''title'' else JStr ''Report''),
         ''''] @
        metadataTable fp @ authorsSection fp @ bulletPointsSection fp @ summarySection fp)"
  by (auto simp: generate_sections titleLines_def subtitleLines_def field_def or_else_def)

theorem title_truthiness_witness:
  "map_of [(''reportTitle'', JStr ''''), (''title'', JStr ''X''), (''reportSubTitle'', JStr '''')]
     ''reportTitle'' = Some (JStr '''') \<and>
   map_of [(''reportTitle'', JStr ''''), (''title'', JStr ''X''), (''reportSubTitle'', JStr '''')]
     ''reportSubTitle'' = Some (JStr '''') \<and>
   \<not> truthy (JStr '''') \<and>
   generateFirstPageMarkdown
     \<lparr>obj = [(''reportTitle'', JStr ''''), (''title'', JStr ''X''),
             (''reportSubTitle'', JStr '''')],
      authors = None, bulletPoints = Some [], summaryParagraphs = None\<rparr> = [''# X'', ''''] \<and>
   map_of [(''reportTitle'', JNum ''0''), (''title'', JNull)] ''reportTitle'' = Some (JNum ''0'') \<and>
   \<not> truthy (JNum ''0'') \<and>
   generateFirstPageMarkdown
     \<lparr>obj = [(''reportTitle'', JNum ''0''), (''title'', JNull)],
      authors = None, bulletPoints = None, summaryParagraphs = None\<rparr> = [''# Report'', '''']"
  using
    title_truthiness [of
      "\<lparr>obj = [(''reportTitle'', JStr ''''), (''title'', JStr ''X''),
              (''reportSubTitle'', JStr '''')],
        authors = None, bulletPoints = Some [], summaryParagraphs = None\<rparr>"
      "JStr ''''" "JStr ''''"]
    title_truthiness [of
      "\<lparr>obj = [(''reportTitle'', JNum ''0''), (''title'', JNull)],
        authors = None, bulletPoints = None, summaryParagraphs = None\<rparr>" "JNum ''0''"]
  by (simp add: field_def subtitleLines_def metadataTable_def metadataFields_def
      authorsSection_def bulletPointsSection_def summarySection_def)

section \<open>C8: the first-page prompt\<close>

text \<open>
  C8: \<open>generateFirstPagePrompt\<close> is a function of the schema and the schema name alone.
  For every schema (a value that is not null or undefined) it returns the fixed
  instruction text with two insertions: the report type, which is \<open>sector\<close> if and only
  if the schema name contains \<open>sector\<close> as a substring and \<open>stock research\<close> otherwise, and
  the names of the schema's top-level properties, in enumeration order, each as a line
  that starts with a dash and a space.
\<close>

theorem prompt_synthesis:
  assumes "\<not> nullish schema"
  shows "generateFirstPagePrompt schema schemaName =
     Some (''You are analyzing the first page of a '' @
           (if sublist ''sector'' schemaName then ''sector'' else ''stock research'') @
           '' report. Extract all information from this image.'' @ nl @ nl @
           ''Extract the following fields:'' @ nl @
           join nl (map (\<lambda>key. ''- '' @ key) (map fst (declaredProperties schema))) @ nl @ nl @
           ''Instructions:'' @ nl @
           ''- Extract all text exactly as shown'' @ nl @
           ''- For dates, format as YYYY-MM-DD'' @ nl @
           ''- For numbers, extract as numeric values'' @ nl @
           ''- For arrays (like authors, bulletPoints), extract all items'' @ nl @
           ''- If a field is not visible, use an appropriate default value'')"
  using assms
  by (simp add: generateFirstPagePrompt_def member_def Object_entries_def declaredProperties_def
      Let_def truthy_not_nullish promptTemplate_def includes_sublist)

theorem prompt_synthesis_witness:
  "\<not> nullish (JObj [(''properties'',
       JObj [(''reportTitle'', JObj [(''type'', JStr ''string'')]),
             (''authors'', JObj [(''type'', JStr ''array'')])])]) \<and>
   generateFirstPagePrompt
     (JObj [(''properties'',
       JObj [(''reportTitle'', JObj [(''type'', JStr ''string'')]),
             (''authors'', JObj [(''type'', JStr ''array'')])])]) ''asia_sector_report'' =
     Some (''You are analyzing the first page of a sector'' @
           '' report. Extract all information from this image.'' @ nl @ nl @
           ''Extract the following fields:'' @ nl @
           ''- reportTitle'' @ nl @ ''- authors'' @ nl @ nl @
           ''Instructions:'' @ nl @
           ''- Extract all text exactly as shown'' @ nl @
           ''- For dates, format as YYYY-MM-DD'' @ nl @
           ''- For numbers, extract as numeric values'' @ nl @
           ''- For arrays (like authors, bulletPoints), extract all items'' @ nl @
           ''- If a field is not visible, use an appropriate default value'')"
  using prompt_synthesis [of
     "JObj [(''properties'',
       JObj [(''reportTitle'', JObj [(''type'', JStr ''string'')]),
             (''authors'', JObj [(''type'', JStr ''array'')])])]" "''asia_sector_report''"]
  by (simp add: declaredProperties_def sublist_Cons_right)

section \<open>Facts about the normalizer\<close>

lemma digit_inj: "a < 10 \<Longrightarrow> b < 10 \<Longrightarrow> digit a = digit b \<Longrightarrow> a = b"
  by (simp add: digit_def nth_eq_iff_index_eq)

lemma digit_mem: "d < 10 \<Longrightarrow> digit d \<in> set ''0123456789''"
  unfolding digit_def by (rule nth_mem) simp

lemma toStringNat_digits: "set (toStringNat n) \<subseteq> set ''0123456789''"
proof (induction n rule: toStringNat.induct)
  case (1 n)
  show ?case
  proof (cases "n < 10")
    case True
    then show ?thesis
      using digit_mem [of n] by (subst toStringNat.simps) simp
  next
    case False
    have "n mod 10 < 10" by simp
    then show ?thesis
      using False "1.IH" digit_mem [of "n mod 10"] by (subst toStringNat.simps) simp
  qed
qed

lemma toStringNat_not_empty: "toStringNat n \<noteq> []"
  by (subst toStringNat.simps) simp

lemma toStringNat_last: "last (toStringNat n) = digit (n mod 10)"
  by (subst toStringNat.simps) simp

lemma toStringNat_butlast:
  "butlast (toStringNat n) = (if n < 10 then [] else toStringNat (n div 10))"
  by (subst toStringNat.simps) simp

lemma toStringNat_inj: "toStringNat n = toStringNat m \<Longrightarrow> n = m"
proof (induction n arbitrary: m rule: toStringNat.induct)
  case (1 n)
  have "digit (n mod 10) = digit (m mod 10)"
    using "1.prems" toStringNat_last [of n] toStringNat_last [of m] by simp
  then have md: "n mod 10 = m mod 10"
    by (intro digit_inj) simp_all
  have bl: "(if n < 10 then [] else toStringNat (n div 10)) =
            (if m < 10 then [] else toStringNat (m div 10))"
    using "1.prems" toStringNat_butlast [of n] toStringNat_butlast [of m] by simp
  show ?case
  proof (cases "n < 10")
    case True
    then have "m < 10" using bl toStringNat_not_empty [of "m div 10"] by (auto split: if_splits)
    then show ?thesis using True md by simp
  next
    case False
    then have m: "\<not> m < 10" using bl toStringNat_not_empty [of "n div 10"] by (auto split: if_splits)
    then have "toStringNat (n div 10) = toStringNat (m div 10)" using bl False by simp
    then have "n div 10 = m div 10" using "1.IH" False by simp
    then show ?thesis using md by (metis div_mult_mod_eq)
  qed
qed

lemma indexed_keys: "map fst (indexed xs) = map toStringNat [0..<length xs]"
  by (simp add: indexed_def)

lemma indexed_values: "kv \<in> set (indexed xs) \<Longrightarrow> snd kv \<in> set xs"
  unfolding indexed_def by (cases kv) (auto dest: set_zip_rightD)

lemma indexed_key_digits: "k \<in> set (map fst (indexed xs)) \<Longrightarrow> set k \<subseteq> set ''0123456789''"
  unfolding indexed_keys using toStringNat_digits by auto

lemma indexed_plain: "plainNames (map fst (indexed xs))"
proof -
  have "distinct (map fst (indexed xs))"
    unfolding indexed_keys by (simp add: distinct_map inj_on_def toStringNat_inj)
  moreover have "''__proto__'' \<notin> set (map fst (indexed xs))"
    using indexed_key_digits [of "''__proto__''" xs] by auto
  ultimately show ?thesis by (simp add: plainNames_def)
qed

lemma store_fresh: "k \<notin> set (map fst kvs) \<Longrightarrow> store k v kvs = kvs @ [(k, v)]"
  by (induction kvs) auto

lemma store_values:
  "kv \<in> set (store k v kvs) \<Longrightarrow> kv = (k, v) \<or> kv \<in> set kvs"
  by (induction kvs) (auto split: if_splits)

lemma assign_fresh:
  "k \<noteq> ''__proto__'' \<Longrightarrow> k \<notin> set (map fst kvs) \<Longrightarrow> assign k v kvs = kvs @ [(k, v)]"
  by (simp add: assign_def store_fresh)

lemma assign_values:
  "kv \<in> set (assign k v kvs) \<Longrightarrow> kv = (k, v) \<or> kv \<in> set kvs"
  using store_values [of kv k v kvs] by (auto simp: assign_def split: if_splits)

lemma nestedLoop_distinct:
  "plainNames (map fst es) \<Longrightarrow> set (map fst es) \<inter> set (map fst np) = {} \<Longrightarrow>
   nestedLoop es (np, nr) = (np @ map (\<lambda>kv. (fst kv, clean (snd kv))) es, nr @ map fst es)"
proof (induction es arbitrary: np nr)
  case Nil
  then show ?case by simp
next
  case (Cons e es)
  obtain k x where e: "e = (k, x)" by (cases e)
  have fresh: "k \<notin> set (map fst np)" using Cons.prems e by auto
  have proto: "k \<noteq> ''__proto__''" using Cons.prems e by (auto simp: plainNames_def)
  have rest: "plainNames (map fst es)" using Cons.prems e by (auto simp: plainNames_def)
  have "set (map fst es) \<inter> set (map fst (np @ [(k, clean x)])) = {}"
    using Cons.prems e by (auto simp: plainNames_def)
  then show ?case
    using Cons.IH [OF rest, of "np @ [(k, clean x)]" "nr @ [k]"] e
    by (simp add: assign_fresh [OF proto fresh] clean_def)
qed

lemma nestedLoop_values:
  "nestedLoop es (np, nr) = (np', nr') \<Longrightarrow> kv \<in> set np' \<Longrightarrow>
   kv \<in> set np \<or> (\<exists>x. snd kv = clean x)"
proof (induction es arbitrary: np nr)
  case Nil
  then show ?case by simp
next
  case (Cons e es)
  obtain k x where e: "e = (k, x)" by (cases e)
  from Cons.prems have "nestedLoop es (assign k (clean x) np, nr @ [k]) = (np', nr')"
    by (simp add: e clean_def)
  from Cons.IH [OF this Cons.prems(2)] show ?case
    using assign_values [of kv k "clean x" np] by auto
qed

lemma strictObject_distinct:
  "plainNames (map fst es) \<Longrightarrow>
   strictObject es =
     JObj [(''type'', JStr ''object''),
           (''properties'', JObj (map (\<lambda>kv. (fst kv, clean (snd kv))) es)),
           (''required'', JArr (map JStr (map fst es))),
           (''additionalProperties'', JBool False)]"
  by (simp add: strictObject_def nestedLoop_distinct)

lemma strictObject_shape:
  "\<exists>np nr. strictObject es =
     JObj [(''type'', JStr ''object''), (''properties'', JObj np),
           (''required'', JArr (map JStr nr)), (''additionalProperties'', JBool False)] \<and>
     (\<forall>kv\<in>set np. \<exists>x. snd kv = clean x)"
proof -
  obtain np nr where l: "nestedLoop es ([], []) = (np, nr)" by (cases "nestedLoop es ([], [])")
  have "\<forall>kv\<in>set np. \<exists>x. snd kv = clean x"
    using nestedLoop_values [OF l] by auto
  then show ?thesis by (auto simp: strictObject_def l)
qed

lemma hasKey_clean: "\<not> hasKey ''format'' (clean x)"
  by (auto simp: clean_def deleteKey_def)

lemma map_of_deleteKey: "k \<noteq> d \<Longrightarrow> map_of (deleteKey d kvs) k = map_of kvs k"
  by (induction kvs) (auto simp: deleteKey_def)

lemma map_of_indexed:
  "\<not> set k \<subseteq> set ''0123456789'' \<Longrightarrow> map_of (deleteKey d (indexed xs)) k = None"
proof -
  assume a: "\<not> set k \<subseteq> set ''0123456789''"
  have "k \<notin> set (map fst (indexed xs))" using indexed_key_digits a by blast
  then have "k \<notin> fst ` set (deleteKey d (indexed xs))" by (auto simp: deleteKey_def)
  then show ?thesis by (simp add: map_of_eq_None_iff)
qed

lemma get_clean:
  assumes "k = ''type'' \<or> k = ''items'' \<or> k = ''properties''"
  shows "get (clean x) k = get x k"
proof -
  have kd: "k \<noteq> ''format''" and nd: "\<not> set k \<subseteq> set ''0123456789''"
    using assms by auto
  show ?thesis
  proof (cases x)
    case (JObj kvs)
    then show ?thesis by (simp add: clean_def map_of_deleteKey [OF kd])
  next
    case (JArr xs)
    then show ?thesis by (simp add: clean_def map_of_indexed [OF nd])
  next
    case (JStr s)
    then show ?thesis by (simp add: clean_def map_of_indexed [OF nd])
  qed (simp_all add: clean_def deleteKey_def)
qed


text \<open>The four outcomes of \<open>normalizeProperty\<close>.\<close>

lemma normalizeProperty_cases:
  assumes "normalizeProperty raw = Some v"
  shows "(isArrayNode raw \<and> isObjectNode (get raw ''items'') \<and>
            v = JObj [(''type'', JStr ''array''),
                      (''items'', strictObject (propertiesOf (get raw ''items'')))]) \<or>
         (isArrayNode raw \<and> \<not> isObjectNode (get raw ''items'') \<and> v = raw) \<or>
         (\<not> isArrayNode raw \<and> isObjectNode raw \<and> v = strictObject (propertiesOf raw)) \<or>
         (\<not> isArrayNode raw \<and> \<not> isObjectNode raw \<and> v = clean raw)"
proof -
  have nn: "\<not> nullish raw" using assms normalizeProperty_None [of raw] by auto
  have obj: "get raw ''type'' = JStr ''array'' \<Longrightarrow> JObj (spread raw) = raw"
    by (cases raw) auto
  show ?thesis
    using assms nn obj
    by (auto simp: normalizeProperty_def member_def Object_entries_def isArrayNode_def
        isObjectNode_def propertiesOf_def clean_def truthy_not_nullish split: if_splits)
qed






lemma isArrayNode_clean: "isArrayNode (clean x) = isArrayNode x"
  by (simp add: isArrayNode_def get_clean)

lemma isObjectNode_clean: "isObjectNode (clean x) = isObjectNode x"
  by (simp add: isObjectNode_def get_clean)



lemma strictObject_facts:
  assumes "plainNames (map fst es)"
  shows "get (strictObject es) ''type'' = JStr ''object''"
    and "propertiesOf (strictObject es) = map (\<lambda>kv. (fst kv, clean (snd kv))) es"
    and "isObjectNode (strictObject es)"
    and "\<not> isArrayNode (strictObject es)"
    and "strictNode (strictObject es)"
  by (simp_all add: strictObject_distinct [OF assms] propertiesOf_def isObjectNode_def
      isArrayNode_def strictNode_def comp_def)


lemma propertiesLoop_values:
  "propertiesLoop es (sp, rq) = Some (sp', rq') \<Longrightarrow> kv \<in> set sp' \<Longrightarrow>
   kv \<in> set sp \<or> (\<exists>raw. (fst kv, raw) \<in> set es \<and> normalizeProperty raw = Some (snd kv))"
proof (induction es arbitrary: sp rq)
  case Nil
  then show ?case by simp
next
  case (Cons e es)
  obtain k x where e: "e = (k, x)" by (cases e)
  from Cons.prems(1) obtain p where p: "normalizeProperty x = Some p"
    and l: "propertiesLoop es (assign k p sp, rq @ [k]) = Some (sp', rq')"
    by (auto simp: e split: Option.bind_splits)
  from Cons.IH [OF l Cons.prems(2)] show ?case
    using assign_values [of kv k p sp] p by (auto simp: e)
qed

lemma propertiesLoop_distinct:
  "plainNames (map fst es) \<Longrightarrow> set (map fst es) \<inter> set (map fst sp) = {} \<Longrightarrow>
   propertiesLoop es (sp, rq) = Some (sp', rq') \<Longrightarrow>
   rq' = rq @ map fst es \<and> map fst sp' = map fst sp @ map fst es"
proof (induction es arbitrary: sp rq)
  case Nil
  then show ?case by simp
next
  case (Cons e es)
  obtain k x where e: "e = (k, x)" by (cases e)
  from Cons.prems(3) obtain p where p: "normalizeProperty x = Some p"
    and l: "propertiesLoop es (assign k p sp, rq @ [k]) = Some (sp', rq')"
    by (auto simp: e split: Option.bind_splits)
  have fresh: "k \<notin> set (map fst sp)" using Cons.prems e by auto
  have proto: "k \<noteq> ''__proto__''" using Cons.prems e by (auto simp: plainNames_def)
  have rest: "plainNames (map fst es)" using Cons.prems e by (auto simp: plainNames_def)
  have a: "assign k p sp = sp @ [(k, p)]" by (rule assign_fresh [OF proto fresh])
  have "set (map fst es) \<inter> set (map fst (sp @ [(k, p)])) = {}"
    using Cons.prems e by (auto simp: plainNames_def)
  from Cons.IH [OF rest this, of "rq @ [k]"] l a show ?case
    by (simp add: e)
qed


lemma build_Some:
  assumes "buildFirstPageJsonSchema schema = Some out"
  obtains sp rq where "\<not> nullish (firstPageSchema schema)"
    and "propertiesLoop (declaredProperties (firstPageSchema schema)) ([], []) = Some (sp, rq)"
    and "out = response_format (strictSchema sp rq)"
proof -
  have nn: "\<not> nullish (firstPageSchema schema)"
    using assms by (auto simp: buildFirstPageJsonSchema_def member_def split: if_splits)
  then show ?thesis
    using assms that by (auto simp: build_unfold [OF nn] split: Option.bind_splits)
qed

lemma schemaOf_response: "schemaOf (response_format s) = s"
  by (simp add: schemaOf_def response_format_def)

lemma strictSchema_facts:
  "propertiesOf (strictSchema sp rq) = sp"
  "declaredProperties (strictSchema sp rq) = sp"
  "get (strictSchema sp rq) ''type'' = JStr ''object''"
  "get (strictSchema sp rq) ''additionalProperties'' = JBool False"
  "get (strictSchema sp rq) ''required'' = JArr (map JStr rq)"
  "\<not> hasKey ''format'' (strictSchema sp rq)"
  "\<not> nullish (strictSchema sp rq)"
  by (simp_all add: strictSchema_def propertiesOf_def declaredProperties_def)

lemma plainSchema_value:
  assumes "plainSchema fp" and "(k, raw) \<in> set (declaredProperties fp)"
  shows "isArrayNode raw \<and> isObjectNode (get raw ''items'') \<longrightarrow>
           plainNames (map fst (propertiesOf (get raw ''items'')))"
    and "\<not> isArrayNode raw \<and> isObjectNode raw \<longrightarrow> plainNames (map fst (propertiesOf raw))"
  using assms unfolding plainSchema_def by force+

lemma normalized_value_strict:
  assumes a: "isArrayNode raw \<and> isObjectNode (get raw ''items'') \<longrightarrow>
              plainNames (map fst (propertiesOf (get raw ''items'')))"
    and b: "\<not> isArrayNode raw \<and> isObjectNode raw \<longrightarrow> plainNames (map fst (propertiesOf raw))"
    and n: "normalizeProperty raw = Some v"
  shows "(isObjectNode v \<and> \<not> isArrayNode v \<longrightarrow> strictNode v) \<and>
         (isArrayNode v \<and> isObjectNode (get v ''items'') \<longrightarrow> strictNode (get v ''items''))"
proof -
  consider
    (ao) "isArrayNode raw" "isObjectNode (get raw ''items'')"
      "v = JObj [(''type'', JStr ''array''),
                 (''items'', strictObject (propertiesOf (get raw ''items'')))]"
  | (ap) "isArrayNode raw" "\<not> isObjectNode (get raw ''items'')" "v = raw"
  | (ob) "\<not> isArrayNode raw" "isObjectNode raw" "v = strictObject (propertiesOf raw)"
  | (lf) "\<not> isArrayNode raw" "\<not> isObjectNode raw" "v = clean raw"
    using normalizeProperty_cases [OF n] by blast
  then show ?thesis
  proof cases
    case ao
    have d: "plainNames (map fst (propertiesOf (get raw ''items'')))"
      using a ao(1,2) by simp
    show ?thesis
      using strictObject_facts(5) [OF d] by (simp add: ao(3) isObjectNode_def)
  next
    case ap
    then show ?thesis by simp
  next
    case ob
    have d: "plainNames (map fst (propertiesOf raw))" using b ob(1,2) by simp
    show ?thesis
      using strictObject_facts(4,5) [OF d] by (simp add: ob(3))
  next
    case lf
    then show ?thesis by (simp add: isArrayNode_clean isObjectNode_clean)
  qed
qed

lemma strictObject_no_format:
  "\<not> hasKey ''format'' (strictObject es) \<and>
   (\<forall>p\<in>set (propertiesOf (strictObject es)). \<not> hasKey ''format'' (snd p)) \<and>
   isObjectNode (strictObject es) \<and> \<not> isArrayNode (strictObject es)"
proof -
  obtain np nr where s: "strictObject es =
     JObj [(''type'', JStr ''object''), (''properties'', JObj np),
           (''required'', JArr (map JStr nr)), (''additionalProperties'', JBool False)]"
    and c: "\<forall>kv\<in>set np. \<exists>x. snd kv = clean x"
    using strictObject_shape [of es] by blast
  have "\<forall>p\<in>set np. \<not> hasKey ''format'' (snd p)"
    using c hasKey_clean by fastforce
  then show ?thesis
    by (simp add: s propertiesOf_def isObjectNode_def isArrayNode_def)
qed

lemma normalized_value_no_format:
  assumes n: "normalizeProperty raw = Some v"
  shows "(\<not> (isArrayNode v \<and> \<not> isObjectNode (get v ''items'')) \<longrightarrow> \<not> hasKey ''format'' v) \<and>
         (isArrayNode v \<and> isObjectNode (get v ''items'') \<longrightarrow>
            \<not> hasKey ''format'' (get v ''items'') \<and>
            (\<forall>p\<in>set (propertiesOf (get v ''items'')). \<not> hasKey ''format'' (snd p))) \<and>
         (isObjectNode v \<and> \<not> isArrayNode v \<longrightarrow>
            (\<forall>p\<in>set (propertiesOf v). \<not> hasKey ''format'' (snd p)))"
proof -
  consider
    (ao) "isArrayNode raw" "isObjectNode (get raw ''items'')"
      "v = JObj [(''type'', JStr ''array''),
                 (''items'', strictObject (propertiesOf (get raw ''items'')))]"
  | (ap) "isArrayNode raw" "\<not> isObjectNode (get raw ''items'')" "v = raw"
  | (ob) "\<not> isArrayNode raw" "isObjectNode raw" "v = strictObject (propertiesOf raw)"
  | (lf) "\<not> isArrayNode raw" "\<not> isObjectNode raw" "v = clean raw"
    using normalizeProperty_cases [OF n] by blast
  then show ?thesis
  proof cases
    case ao
    show ?thesis
      using strictObject_no_format [of "propertiesOf (get raw ''items'')"]
      by (simp add: ao(3) isObjectNode_def)
  next
    case ap
    then show ?thesis by simp
  next
    case ob
    show ?thesis
      using strictObject_no_format [of "propertiesOf raw"] by (simp add: ob(3))
  next
    case lf
    then show ?thesis by (simp add: isArrayNode_clean isObjectNode_clean hasKey_clean)
  qed
qed

lemma authors_build: "buildFirstPageJsonSchema authorsDefinition = Some authorsNormalized"
  by (simp add: authorsDefinition_def authorsNormalized_def buildFirstPageJsonSchema_def
      member_def Object_entries_def normalizeProperty_def strictObject_def deleteKey_def
      response_format_def strictSchema_def)

lemma authors_plainSchema: "plainSchema (firstPageSchema authorsDefinition)"
  by (simp add: authorsDefinition_def plainSchema_def plainNames_def declaredProperties_def
      propertiesOf_def isArrayNode_def isObjectNode_def)

lemma deep_build: "buildFirstPageJsonSchema deepDefinition = Some deepNormalized"
  by (simp add: deepDefinition_def deepNormalized_def buildFirstPageJsonSchema_def
      member_def Object_entries_def normalizeProperty_def strictObject_def deleteKey_def
      response_format_def strictSchema_def)

lemma proto_build: "buildFirstPageJsonSchema protoDefinition = Some protoNormalized"
  by (simp add: protoDefinition_def protoNormalized_def buildFirstPageJsonSchema_def
      member_def Object_entries_def normalizeProperty_def deleteKey_def
      response_format_def strictSchema_def)

section \<open>C4: idempotence\<close>




section \<open>C3: required lists\<close>

text \<open>
  C3, as the specification states it: every object node of the normalized output is
  strict, with a \<^verbatim>\<open>required\<close> list that is exactly its own property names, for every
  schema. The normalizer is not recursive: an object nested in a nested object, here
  \<^verbatim>\<open>company.address\<close>, is copied as it is and gets neither \<^verbatim>\<open>required\<close> nor
  \<^verbatim>\<open>additionalProperties\<close>. And a declared property named \<^verbatim>\<open>__proto__\<close> is pushed on
  \<^verbatim>\<open>required\<close> while the assignment stores no property of that name.
\<close>

theorem required_incomplete_below_and_proto:
  "buildFirstPageJsonSchema deepDefinition = Some deepNormalized \<and>
   isObjectNode
     (get (get (get (get (schemaOf deepNormalized) ''properties'') ''company'') ''properties'')
        ''address'') \<and>
   get (get (get (get (get (schemaOf deepNormalized) ''properties'') ''company'') ''properties'')
        ''address'') ''required'' = JUndefined \<and>
   get (get (get (get (get (schemaOf deepNormalized) ''properties'') ''company'') ''properties'')
        ''address'') ''additionalProperties'' = JUndefined \<and>
   \<not> strictNode
     (get (get (get (get (schemaOf deepNormalized) ''properties'') ''company'') ''properties'')
        ''address'') \<and>
   buildFirstPageJsonSchema protoDefinition = Some protoNormalized \<and>
   get (schemaOf protoNormalized) ''required'' = JArr [JStr ''__proto__''] \<and>
   propertiesOf (schemaOf protoNormalized) = [] \<and>
   \<not> strictNode (schemaOf protoNormalized)"
  using deep_build proto_build
  by (simp add: deepNormalized_def protoNormalized_def schemaOf_def propertiesOf_def
      isObjectNode_def strictNode_def)

text \<open>
  C3, amended: for every schema with plain names (no list of names that the loops store
  holds a name twice or the name \<^verbatim>\<open>__proto__\<close>), the object nodes that the normalizer
  builds, that is the top-level schema, every top-level property that is a nested object
  (type object with properties) and the items of every top-level array of such objects,
  have type object, \<open>additionalProperties\<close> false and a \<open>required\<close> list that is exactly
  the list of their own property names, in enumeration order. Nothing is said of object
  nodes nested more deeply.
\<close>

theorem required_complete:
  assumes "plainSchema (firstPageSchema schema)"
    and "buildFirstPageJsonSchema schema = Some out"
  shows "strictNode (schemaOf out) \<and>
         (\<forall>kv\<in>set (propertiesOf (schemaOf out)).
            (isObjectNode (snd kv) \<and> \<not> isArrayNode (snd kv) \<longrightarrow> strictNode (snd kv)) \<and>
            (isArrayNode (snd kv) \<and> isObjectNode (get (snd kv) ''items'') \<longrightarrow>
               strictNode (get (snd kv) ''items'')))"
proof -
  from assms(2) obtain sp rq where
    l: "propertiesLoop (declaredProperties (firstPageSchema schema)) ([], []) = Some (sp, rq)"
    and out: "out = response_format (strictSchema sp rq)"
    by (rule build_Some)
  let ?es = "declaredProperties (firstPageSchema schema)"
  have d: "plainNames (map fst ?es)" using assms(1) by (simp add: plainSchema_def)
  have keys: "rq = map fst ?es" "map fst sp = map fst ?es"
    using propertiesLoop_distinct [OF d _ l] by simp_all
  have top: "strictNode (strictSchema sp rq)"
    by (simp add: strictNode_def strictSchema_facts keys)
  have each: "(isObjectNode (snd kv) \<and> \<not> isArrayNode (snd kv) \<longrightarrow> strictNode (snd kv)) \<and>
            (isArrayNode (snd kv) \<and> isObjectNode (get (snd kv) ''items'') \<longrightarrow>
               strictNode (get (snd kv) ''items''))" if "kv \<in> set sp" for kv
  proof -
    from propertiesLoop_values [OF l that] obtain raw where
      r: "(fst kv, raw) \<in> set ?es" and n: "normalizeProperty raw = Some (snd kv)" by auto
    show ?thesis
      using plainSchema_value [OF assms(1) r] n by (rule normalized_value_strict)
  qed
  show ?thesis
    using top each by (simp add: out schemaOf_response strictSchema_facts)
qed

theorem required_complete_witness:
  "plainSchema (firstPageSchema authorsDefinition) \<and>
   buildFirstPageJsonSchema authorsDefinition = Some authorsNormalized \<and>
   get (schemaOf authorsNormalized) ''required'' = JArr [JStr ''authors'', JStr ''reportDate''] \<and>
   map fst (propertiesOf (schemaOf authorsNormalized)) = [''authors'', ''reportDate''] \<and>
   strictNode (schemaOf authorsNormalized) \<and>
   strictNode (get (get (get (schemaOf authorsNormalized) ''properties'') ''authors'') ''items'') \<and>
   get (get (get (get (schemaOf authorsNormalized) ''properties'') ''authors'') ''items'')
       ''required'' = JArr [JStr ''name'', JStr ''email'', JStr ''phone'']"
  using required_complete [OF authors_plainSchema authors_build]
    authors_plainSchema authors_build
  by (simp add: authorsNormalized_def schemaOf_def propertiesOf_def isArrayNode_def
      isObjectNode_def)

section \<open>C1: the format keyword\<close>

text \<open>
  C1, as the specification states it: the normalized schema holds no \<^verbatim>\<open>format\<close> keyword
  at any depth. The normalizer is not recursive: it deletes \<^verbatim>\<open>format\<close> from the own
  keys of the nodes it copies and goes no deeper than the properties of a nested object.
  An object nested in a nested object keeps what it holds: here \<^verbatim>\<open>company.address\<close> is
  copied with its \<^verbatim>\<open>zip\<close> property, whose \<^verbatim>\<open>format\<close> stays in the output.
\<close>

theorem format_remains_below_nested_object:
  "buildFirstPageJsonSchema
     \<lparr>SchemaDefinition.name = ''stock_report'',
      firstPageSchema =
        JObj [(''properties'',
          JObj [(''company'',
            JObj [(''type'', JStr ''object''),
                  (''properties'',
                    JObj [(''address'',
                      JObj [(''type'', JStr ''object''),
                            (''properties'',
                              JObj [(''zip'',
                                JObj [(''type'', JStr ''string''),
                                      (''format'', JStr ''postal-code'')])])])])])])],
      innerPagesSchema = JObj [], firstPagePrompt = ''''\<rparr> =
     Some (JObj [(''type'', JStr ''json_schema''),
       (''json_schema'',
          JObj [(''name'', JStr ''first_page_response''),
                (''strict'', JBool True),
                (''schema'',
                   JObj [(''type'', JStr ''object''),
                     (''properties'',
                        JObj [(''company'',
                          JObj [(''type'', JStr ''object''),
                            (''properties'',
                               JObj [(''address'',
                                 JObj [(''type'', JStr ''object''),
                                       (''properties'',
                                          JObj [(''zip'',
                                            JObj [(''type'', JStr ''string''),
                                                  (''format'', JStr ''postal-code'')])])])]),
                            (''required'', JArr [JStr ''address'']),
                            (''additionalProperties'', JBool False)])]),
                     (''required'', JArr [JStr ''company'']),
                     (''additionalProperties'', JBool False)])])]) \<and>
   map_option containsFormat
     (buildFirstPageJsonSchema
        \<lparr>SchemaDefinition.name = ''stock_report'',
         firstPageSchema =
           JObj [(''properties'',
             JObj [(''company'',
               JObj [(''type'', JStr ''object''),
                     (''properties'',
                       JObj [(''address'',
                         JObj [(''type'', JStr ''object''),
                               (''properties'',
                                 JObj [(''zip'',
                                   JObj [(''type'', JStr ''string''),
                                         (''format'', JStr ''postal-code'')])])])])])])],
         innerPagesSchema = JObj [], firstPagePrompt = ''''\<rparr>) = Some True"
  by (simp add: buildFirstPageJsonSchema_def member_def Object_entries_def
      normalizeProperty_def strictObject_def deleteKey_def response_format_def strictSchema_def)

text \<open>
  The array branch of the loop is the one place where a copied node keeps its own
  \<^verbatim>\<open>format\<close>: an array whose items are not an object with properties is spread and
  stored as it is (line 102), while the other three branches delete the key.
\<close>

lemma plain_array_keeps_format:
  "buildFirstPageJsonSchema
     \<lparr>SchemaDefinition.name = ''stock_report'',
      firstPageSchema =
        JObj [(''properties'',
          JObj [(''dates'',
            JObj [(''type'', JStr ''array''),
                  (''items'', JObj [(''type'', JStr ''string''), (''format'', JStr ''date'')]),
                  (''format'', JStr ''x'')])])],
      innerPagesSchema = JObj [], firstPagePrompt = ''''\<rparr> =
     Some (JObj [(''type'', JStr ''json_schema''),
       (''json_schema'',
          JObj [(''name'', JStr ''first_page_response''),
                (''strict'', JBool True),
                (''schema'',
                   JObj [(''type'', JStr ''object''),
                     (''properties'',
                        JObj [(''dates'',
                          JObj [(''type'', JStr ''array''),
                                (''items'', JObj [(''type'', JStr ''string''),
                                                  (''format'', JStr ''date'')]),
                                (''format'', JStr ''x'')])]),
                     (''required'', JArr [JStr ''dates'']),
                     (''additionalProperties'', JBool False)])])])"
  by (simp add: buildFirstPageJsonSchema_def member_def Object_entries_def
      normalizeProperty_def response_format_def strictSchema_def)

text \<open>
  C1, amended: in the normalized schema, \<^verbatim>\<open>format\<close> is no own key of the top-level
  schema, of any top-level property that is a leaf, a nested object or an array of
  objects, of the items node of an array of objects, of any property of a nested object,
  or of any property of an array's object items. The key is deleted one level deep:
  what lies below these nodes is copied as it is. Nothing is said here of a top-level
  array whose items are not an object with properties.
\<close>

theorem format_removed_one_level:
  assumes "buildFirstPageJsonSchema schema = Some out"
  shows "\<not> hasKey ''format'' (schemaOf out) \<and>
         (\<forall>kv\<in>set (propertiesOf (schemaOf out)).
            (\<not> (isArrayNode (snd kv) \<and> \<not> isObjectNode (get (snd kv) ''items'')) \<longrightarrow>
               \<not> hasKey ''format'' (snd kv)) \<and>
            (isArrayNode (snd kv) \<and> isObjectNode (get (snd kv) ''items'') \<longrightarrow>
               \<not> hasKey ''format'' (get (snd kv) ''items'') \<and>
               (\<forall>p\<in>set (propertiesOf (get (snd kv) ''items'')). \<not> hasKey ''format'' (snd p))) \<and>
            (isObjectNode (snd kv) \<and> \<not> isArrayNode (snd kv) \<longrightarrow>
               (\<forall>p\<in>set (propertiesOf (snd kv)). \<not> hasKey ''format'' (snd p))))"
proof -
  from assms obtain sp rq where
    l: "propertiesLoop (declaredProperties (firstPageSchema schema)) ([], []) = Some (sp, rq)"
    and out: "out = response_format (strictSchema sp rq)"
    by (rule build_Some)
  have each: "(\<not> (isArrayNode (snd kv) \<and> \<not> isObjectNode (get (snd kv) ''items'')) \<longrightarrow>
               \<not> hasKey ''format'' (snd kv)) \<and>
            (isArrayNode (snd kv) \<and> isObjectNode (get (snd kv) ''items'') \<longrightarrow>
               \<not> hasKey ''format'' (get (snd kv) ''items'') \<and>
               (\<forall>p\<in>set (propertiesOf (get (snd kv) ''items'')). \<not> hasKey ''format'' (snd p))) \<and>
            (isObjectNode (snd kv) \<and> \<not> isArrayNode (snd kv) \<longrightarrow>
               (\<forall>p\<in>set (propertiesOf (snd kv)). \<not> hasKey ''format'' (snd p)))"
    if "kv \<in> set sp" for kv
  proof -
    from propertiesLoop_values [OF l that] obtain raw where
      "normalizeProperty raw = Some (snd kv)" by auto
    then show ?thesis by (rule normalized_value_no_format)
  qed
  show ?thesis
    using each by (simp add: out schemaOf_response strictSchema_facts)
qed

theorem format_removed_one_level_witness:
  "buildFirstPageJsonSchema authorsDefinition = Some authorsNormalized \<and>
   hasKey ''format''
     (get (get (get (get (get (firstPageSchema authorsDefinition) ''properties'') ''authors'')
        ''items'') ''properties'') ''email'') \<and>
   hasKey ''format'' (get (get (firstPageSchema authorsDefinition) ''properties'') ''reportDate'') \<and>
   \<not> hasKey ''format'' (schemaOf authorsNormalized) \<and>
   \<not> hasKey ''format'' (get (get (schemaOf authorsNormalized) ''properties'') ''reportDate'') \<and>
   \<not> hasKey ''format'' (get (get (schemaOf authorsNormalized) ''properties'') ''authors'') \<and>
   \<not> hasKey ''format''
     (get (get (get (get (get (schemaOf authorsNormalized) ''properties'') ''authors'')
        ''items'') ''properties'') ''email'')"
  using format_removed_one_level [OF authors_build] authors_build
  by (simp add: authorsNormalized_def authorsDefinition_def schemaOf_def propertiesOf_def
      isArrayNode_def isObjectNode_def)

end
